theory Spec2Isabelle
  imports Complex_Main "HOL-Library.Multiset"
begin

text \<open>
  A model of the analysis pipeline of \<^verbatim>\<open>src/main.py\<close>: the parser of catalog
  responses, the averaging and scoring of \<open>Worker.predict_risk\<close>, the run of a
  \<open>Worker\<close> with its signals, and the way \<open>EarlyWarningApp\<close> starts runs. The
  network, the classifier and the heap of frames are explicit: the catalog and the
  classifier are parameters, a run takes the heap and returns it. Every exception of
  the source is a value \<open>Inl\<close>.
\<close>

section \<open>Python values and exceptions\<close>

text \<open>
  The catalog response is the value of \<^verbatim>\<open>response.json()\<close>: nested dicts, lists,
  strings, numbers, booleans and \<^verbatim>\<open>None\<close>. The events that
  \<^verbatim>\<open>parse_earthquake_data\<close> builds are dicts again, holding values of the response and
  one \<^verbatim>\<open>datetime\<close>. One datatype covers both.

  Numbers: Python's \<^verbatim>\<open>int\<close> and \<^verbatim>\<open>float\<close> are both \<open>PNum\<close> of a real;
  rounding of binary floating point, NaN and the infinities are outside the model.
  A dict is the list of its items; the keys of a Python dict are distinct, so \<open>map_of\<close>
  is the lookup. A \<^verbatim>\<open>datetime\<close> is its number of microseconds since the epoch.
\<close>

datatype pyval =
    PNone
  | PBool bool
  | PNum real
  | PStr string
  | PList "pyval list"
  | PDict "(string \<times> pyval) list"
  | PDatetime int

type_synonym pydict = "(string \<times> pyval) list"

text \<open>
  The exceptions the modelled code can raise. \<open>RequestError\<close> stands for everything
  \<^verbatim>\<open>requests.get\<close>, \<^verbatim>\<open>raise_for_status\<close> and \<^verbatim>\<open>response.json\<close> raise (its argument
  tells causes apart); \<open>ModelError\<close> for what the classifier raises.
\<close>

datatype exn =
    AttributeError
  | TypeError
  | KeyError
  | IndexError
  | ValueError
  | StatisticsError
  | RequestError nat
  | ModelError nat

text \<open>
  Sequencing: an exception of the first computation leaves the whole; otherwise the second
  runs on the first's value.
\<close>

definition bind_exn :: "exn + 'a \<Rightarrow> ('a \<Rightarrow> exn + 'b) \<Rightarrow> exn + 'b" where
  "bind_exn m f = (case m of Inl x \<Rightarrow> Inl x | Inr v \<Rightarrow> f v)"

text \<open>\<^verbatim>\<open>x.get(k, d)\<close>: only a dict has the method.\<close>

definition dict_get :: "pyval \<Rightarrow> string \<Rightarrow> pyval \<Rightarrow> exn + pyval" where
  "dict_get x k d =
     (case x of
        PDict kvs \<Rightarrow> Inr (case map_of kvs k of None \<Rightarrow> d | Some v \<Rightarrow> v)
      | _ \<Rightarrow> Inl AttributeError)"

text \<open>\<^verbatim>\<open>x[k]\<close> with a string key.\<close>

definition getitem :: "pyval \<Rightarrow> string \<Rightarrow> exn + pyval" where
  "getitem x k =
     (case x of
        PDict kvs \<Rightarrow> (case map_of kvs k of None \<Rightarrow> Inl KeyError | Some v \<Rightarrow> Inr v)
      | _ \<Rightarrow> Inl TypeError)"

text \<open>\<^verbatim>\<open>for x in v\<close>: a list gives its elements, a string its characters, a dict its keys.\<close>

definition py_iter :: "pyval \<Rightarrow> exn + pyval list" where
  "py_iter v =
     (case v of
        PList xs \<Rightarrow> Inr xs
      | PStr s \<Rightarrow> Inr (map (\<lambda>c. PStr [c]) s)
      | PDict kvs \<Rightarrow> Inr (map (\<lambda>kv. PStr (fst kv)) kvs)
      | _ \<Rightarrow> Inl TypeError)"

text \<open>\<^verbatim>\<open>len(v)\<close>.\<close>

definition py_len :: "pyval \<Rightarrow> exn + nat" where
  "py_len v =
     (case v of
        PList xs \<Rightarrow> Inr (length xs)
      | PStr s \<Rightarrow> Inr (length s)
      | PDict kvs \<Rightarrow> Inr (length kvs)
      | _ \<Rightarrow> Inl TypeError)"

text \<open>
  \<^verbatim>\<open>v[2]\<close>. The keys of a dict that came from JSON are strings, so the key \<open>2\<close> is
  never present.
\<close>

definition index2 :: "pyval \<Rightarrow> exn + pyval" where
  "index2 v =
     (case v of
        PList xs \<Rightarrow> (if 2 < length xs then Inr (xs ! 2) else Inl IndexError)
      | PStr s \<Rightarrow> (if 2 < length s then Inr (PStr [s ! 2]) else Inl IndexError)
      | PDict kvs \<Rightarrow> Inl KeyError
      | _ \<Rightarrow> Inl TypeError)"

text \<open>The numbers of Python: \<^verbatim>\<open>bool\<close> is a subclass of \<^verbatim>\<open>int\<close>.\<close>

definition as_number :: "pyval \<Rightarrow> real option" where
  "as_number v =
     (case v of
        PNum r \<Rightarrow> Some r
      | PBool b \<Rightarrow> Some (if b then 1 else 0)
      | _ \<Rightarrow> None)"

text \<open>\<^verbatim>\<open>v / 1000\<close>.\<close>

definition div1000 :: "pyval \<Rightarrow> exn + real" where
  "div1000 v = (case as_number v of None \<Rightarrow> Inl TypeError | Some r \<Rightarrow> Inr (r / 1000))"

text \<open>
  \<^verbatim>\<open>datetime.utcfromtimestamp(t)\<close>: the timestamp is rounded to microseconds, half to
  even, and the result must lie in the years 1 to 9999.
\<close>

definition round_half_even :: "real \<Rightarrow> int" where
  "round_half_even x =
     (let f = \<lfloor>x\<rfloor>; d = x - of_int f
      in if d < 1 / 2 then f
         else if 1 / 2 < d then f + 1
         else if even f then f else f + 1)"

definition min_datetime_us :: int where
  "min_datetime_us = - 62135596800000000"

definition max_datetime_us :: int where
  "max_datetime_us = 253402300799999999"

definition utcfromtimestamp :: "real \<Rightarrow> exn + pyval" where
  "utcfromtimestamp t =
     (let us = round_half_even (t * 1000000)
      in if min_datetime_us \<le> us \<and> us \<le> max_datetime_us
         then Inr (PDatetime us) else Inl ValueError)"

section \<open>Worker.parse_earthquake_data\<close>

text \<open>
  Lines 106 to 121. \<open>build_event\<close> is the dict literal of lines 112 to 120,
  \<open>parse_feature\<close> the body of the loop (lines 109 to 120), for one feature: \<open>Inr None\<close> when the guard skips the record,
  \<open>Inr (Some e)\<close> when it appends the event \<open>e\<close>, \<open>Inl x\<close> when an exception leaves
  the function. The order of evaluation is the source's: \<open>props\<close>, then \<open>coords\<close>, then
  the guard (whose \<^verbatim>\<open>and\<close> does not evaluate \<^verbatim>\<open>len(coords)\<close> when the magnitude is
  \<^verbatim>\<open>None\<close>), then the entries of the dict literal from top to bottom.
\<close>

definition build_event :: "pyval \<Rightarrow> pyval \<Rightarrow> exn + pydict" where
  "build_event props coords =
     bind_exn (getitem props ''time'') (\<lambda>t.
     bind_exn (div1000 t) (\<lambda>secs.
     bind_exn (utcfromtimestamp secs) (\<lambda>time.
     bind_exn (getitem props ''mag'') (\<lambda>mag.
     bind_exn (index2 coords) (\<lambda>depth.
     bind_exn (dict_get props ''nst'' (PNum 0)) (\<lambda>nst.
     bind_exn (dict_get props ''gap'' (PNum 0)) (\<lambda>gap.
     bind_exn (dict_get props ''dmin'' (PNum 0)) (\<lambda>dmin.
     bind_exn (dict_get props ''rms'' (PNum 0)) (\<lambda>rms.
     Inr [(''time'', time), (''mag'', mag), (''depth'', depth), (''nst'', nst),
          (''gap'', gap), (''dmin'', dmin), (''rms'', rms)])))))))))"

definition parse_feature :: "pyval \<Rightarrow> exn + pydict option" where
  "parse_feature feature =
     bind_exn (dict_get feature ''properties'' (PDict [])) (\<lambda>props.
     bind_exn (dict_get feature ''geometry'' (PDict [])) (\<lambda>geometry.
     bind_exn (dict_get geometry ''coordinates'' (PList [])) (\<lambda>coords.
     bind_exn (dict_get props ''mag'' PNone) (\<lambda>m.
     if m = PNone then Inr None else
     bind_exn (py_len coords) (\<lambda>n.
     if 3 \<le> n then bind_exn (build_event props coords) (\<lambda>e. Inr (Some e))
     else Inr None)))))"

text \<open>The loop over the features, with the list \<open>events\<close> it appends to.\<close>

fun parse_features :: "pyval list \<Rightarrow> pydict list \<Rightarrow> exn + pydict list" where
  "parse_features [] events = Inr events"
| "parse_features (feature # rest) events =
     (case parse_feature feature of
        Inl x \<Rightarrow> Inl x
      | Inr None \<Rightarrow> parse_features rest events
      | Inr (Some e) \<Rightarrow> parse_features rest (events @ [e]))"

definition parse_earthquake_data :: "pyval \<Rightarrow> exn + pydict list" where
  "parse_earthquake_data data =
     bind_exn (dict_get data ''features'' (PList [])) (\<lambda>fs.
     bind_exn (py_iter fs) (\<lambda>features.
     parse_features features []))"

section \<open>Worker.predict_risk\<close>

text \<open>
  Lines 123 to 134. The classifier is the object loaded from the model file; the code uses it through
  \<^verbatim>\<open>predict_proba(features_df)[0][1]\<close> only: the probability of the positive class for
  one row of features, or an exception (a row of the wrong shape, a model without a
  second class).
\<close>

type_synonym classifier = "real list \<Rightarrow> exn + real"

definition training_features :: "string list" where
  "training_features = [''mag'', ''depth'', ''nst'', ''gap'', ''dmin'', ''rms'']"

text \<open>\<^verbatim>\<open>[e[feat] for e in events]\<close>: the first event without the key raises.\<close>

fun column :: "string \<Rightarrow> pydict list \<Rightarrow> exn + pyval list" where
  "column feat [] = Inr []"
| "column feat (e # es) =
     bind_exn (getitem (PDict e) feat) (\<lambda>v.
     bind_exn (column feat es) (\<lambda>vs. Inr (v # vs)))"

text \<open>
  \<^verbatim>\<open>statistics.mean(data)\<close>: no data point raises \<^verbatim>\<open>StatisticsError\<close>; the sum is
  accumulated exactly, element by element, and a value that is no number raises
  \<^verbatim>\<open>TypeError\<close>; the total is divided by the number of data points.
\<close>

fun exact_sum :: "pyval list \<Rightarrow> real \<Rightarrow> exn + real" where
  "exact_sum [] acc = Inr acc"
| "exact_sum (x # xs) acc =
     (case as_number x of
        None \<Rightarrow> Inl TypeError
      | Some r \<Rightarrow> exact_sum xs (acc + r))"

definition mean_py :: "pyval list \<Rightarrow> exn + real" where
  "mean_py data =
     (if length data < 1 then Inl StatisticsError
      else bind_exn (exact_sum data 0) (\<lambda>s. Inr (s / real (length data))))"

text \<open>
  The loop over \<open>training_features\<close> (lines 128 to 132). The source collects the means in the dict
  \<open>feature_values\<close> and builds a one-row frame whose columns are \<open>training_features\<close>
  again, so the row holds the means in the order of the loop: \<open>vals\<close> is that row.
  \<^verbatim>\<open>events[0]\<close> raises \<^verbatim>\<open>IndexError\<close> on an empty list; \<open>predict_risk\<close> never
  gets there.
\<close>

fun feature_loop :: "string list \<Rightarrow> pydict list \<Rightarrow> real list \<Rightarrow> exn + real list" where
  "feature_loop [] events vals = Inr vals"
| "feature_loop (feat # feats) events vals =
     (case events of
        [] \<Rightarrow> Inl IndexError
      | e0 # _ \<Rightarrow>
          if feat \<in> fst ` set e0
          then bind_exn (column feat events) (\<lambda>data.
               bind_exn (mean_py data) (\<lambda>m.
               feature_loop feats events (vals @ [m])))
          else Inl ValueError)"

definition feature_values :: "pydict list \<Rightarrow> exn + real list" where
  "feature_values events = feature_loop training_features events []"

definition predict_risk :: "classifier \<Rightarrow> pydict list \<Rightarrow> exn + real" where
  "predict_risk clf events =
     (if events = [] then Inr 0
      else bind_exn (feature_values events) (\<lambda>features_df.
           bind_exn (clf features_df) (\<lambda>p. Inr (p * 100))))"

section \<open>Worker.fetch_events\<close>

text \<open>Lines 94 to 104; \<open>TURKEY_BBOX\<close> is the constant of lines 24 to 29.\<close>

record bbox =
  minlatitude :: real
  maxlatitude :: real
  minlongitude :: real
  maxlongitude :: real

definition TURKEY_BBOX :: bbox where
  "TURKEY_BBOX =
     \<lparr>minlatitude = 36, maxlatitude = 42.5, minlongitude = 26, maxlongitude = 45.5\<rparr>"

text \<open>
  The parameters of one request that vary (\<open>format\<close> and \<open>minmagnitude\<close> are constants).
  The remote catalog is a parameter of the model: what the k-th request of a run
  returns as \<^verbatim>\<open>response.json()\<close>, or the exception that \<^verbatim>\<open>requests.get\<close>,
  \<^verbatim>\<open>raise_for_status\<close> or \<^verbatim>\<open>json\<close> raises. The number of the request is there so
  that two requests for the same box may be answered differently.
\<close>

record params =
  starttime :: int
  endtime :: int
  box :: bbox

type_synonym catalog = "nat \<Rightarrow> params \<Rightarrow> exn + pyval"

definition fetch_events ::
  "catalog \<Rightarrow> nat \<Rightarrow> int \<Rightarrow> int \<Rightarrow> bbox option \<Rightarrow> exn + pydict list" where
  "fetch_events cat k st en b =
     bind_exn
       (cat k \<lparr>starttime = st, endtime = en,
                box = (case b of None \<Rightarrow> TURKEY_BBOX | Some bb \<Rightarrow> bb)\<rparr>)
       parse_earthquake_data"

section \<open>Worker.run\<close>

text \<open>
  Lines 63 to 92. A row of the provinces frame: the name of the province (the column \<open>NAME_1\<close>) and the
  bounds \<open>(minx, miny, maxx, maxy)\<close> of its geometry. A frame is its rows and, when it
  has one, the column \<open>risk\<close>.

  Frames are objects: the application and every worker hold a reference to the same
  provinces frame. The heap is the list of the frames allocated so far, a reference an
  index into it. \<^verbatim>\<open>copy()\<close> allocates. A reference outside the heap stands for
  \<^verbatim>\<open>None\<close> in place of the frame, whose \<^verbatim>\<open>copy\<close> raises \<^verbatim>\<open>AttributeError\<close>.
\<close>

record region =
  region_name :: string
  bounds :: "real \<times> real \<times> real \<times> real"

record frame =
  rows :: "region list"
  risk :: "real list option"

type_synonym addr = nat
type_synonym heap = "frame list"

definition copy_frame :: "heap \<Rightarrow> addr \<Rightarrow> exn + heap \<times> addr" where
  "copy_frame h a =
     (if a < length h then Inr (h @ [h ! a], length h) else Inl AttributeError)"

text \<open>\<^verbatim>\<open>provs['risk'] = risks\<close>; pandas refuses a column of the wrong length.\<close>

definition set_risk :: "heap \<Rightarrow> addr \<Rightarrow> real list \<Rightarrow> exn + heap" where
  "set_risk h a risks =
     (if a < length h \<and> length risks = length (rows (h ! a))
      then Inr (h[a := (h ! a)\<lparr>risk := Some risks\<rparr>])
      else Inl ValueError)"

definition region_bbox :: "region \<Rightarrow> bbox" where
  "region_bbox row =
     (case bounds row of (minx, miny, maxx, maxy) \<Rightarrow>
        \<lparr>minlatitude = miny, maxlatitude = maxy, minlongitude = minx, maxlongitude = maxx\<rparr>)"

record worker =
  model :: classifier
  provinces :: addr
  start :: int
  stop :: int
  threshold :: int

text \<open>
  The signals of the worker. The argument of \<open>error\<close> is a string in the source: the
  fixed text for "no earthquake data in the given range", or the prefix for
  "computation error" followed by the text of the exception.
\<close>

datatype message = NoData | CalcError exn

datatype signal =
    SigError message
  | SigResult real "pydict list" addr
  | SigFinished

text \<open>
  The loop over the rows: \<open>k\<close> numbers the requests, \<open>risks\<close> is the list appended to.
  No \<^verbatim>\<open>try\<close> stands inside the loop: an exception of a fetch or of a prediction
  leaves it.
\<close>

fun sweep ::
  "catalog \<Rightarrow> classifier \<Rightarrow> int \<Rightarrow> int \<Rightarrow> nat \<Rightarrow> region list \<Rightarrow> real list
     \<Rightarrow> exn + real list" where
  "sweep cat clf st en k [] risks = Inr risks"
| "sweep cat clf st en k (row # rest) risks =
     bind_exn (fetch_events cat k st en (Some (region_bbox row))) (\<lambda>evs.
     bind_exn (if evs \<noteq> [] then predict_risk clf evs else Inr 0) (\<lambda>r.
     sweep cat clf st en (Suc k) rest (risks @ [r])))"

text \<open>
  The \<^verbatim>\<open>try\<close> block: the heap it leaves, the signals it emitted, and the exception that
  left it, if any. \<open>run_provinces\<close> is the block from \<^verbatim>\<open>provs = self.provinces.copy()\<close>
  on.
\<close>

definition run_provinces ::
  "catalog \<Rightarrow> worker \<Rightarrow> heap \<Rightarrow> real \<Rightarrow> pydict list \<Rightarrow> heap \<times> signal list \<times> exn option" where
  "run_provinces cat w h proba events =
     (case copy_frame h (provinces w) of
        Inl x \<Rightarrow> (h, [], Some x)
      | Inr (h1, provs) \<Rightarrow>
          (case sweep cat (model w) (start w) (stop w) 1 (rows (h1 ! provs)) [] of
             Inl x \<Rightarrow> (h1, [], Some x)
           | Inr risks \<Rightarrow>
               (case set_risk h1 provs risks of
                  Inl x \<Rightarrow> (h1, [], Some x)
                | Inr h2 \<Rightarrow> (h2, [SigResult proba events provs], None))))"

definition run_try :: "catalog \<Rightarrow> worker \<Rightarrow> heap \<Rightarrow> heap \<times> signal list \<times> exn option" where
  "run_try cat w h =
     (case fetch_events cat 0 (start w) (stop w) None of
        Inl x \<Rightarrow> (h, [], Some x)
      | Inr events \<Rightarrow>
          if events = [] then (h, [SigError NoData, SigFinished], None)
          else (case predict_risk (model w) events of
                  Inl x \<Rightarrow> (h, [], Some x)
                | Inr proba \<Rightarrow> run_provinces cat w h proba events))"

text \<open>\<^verbatim>\<open>except Exception\<close> emits the error, \<^verbatim>\<open>finally\<close> emits \<open>finished\<close>.\<close>

definition run :: "catalog \<Rightarrow> worker \<Rightarrow> heap \<Rightarrow> heap \<times> signal list" where
  "run cat w h =
     (case run_try cat w h of
        (h', sigs, None) \<Rightarrow> (h', sigs @ [SigFinished])
      | (h', sigs, Some x) \<Rightarrow> (h', sigs @ [SigError (CalcError x), SigFinished]))"

section \<open>EarlyWarningApp: starting runs\<close>

text \<open>
  Lines 186 to 189, 226 and 258 to 311: what the main thread does with its events.
  \<open>start_analysis\<close> is connected to the
  button's \<open>clicked\<close> and to the timer's \<open>timeout\<close>; it disables the button and
  starts a new thread with a new worker, whatever the state. Qt delivers \<open>clicked\<close>
  of an enabled button only. \<open>handle_results\<close> and \<open>handle_error\<close> enable the button
  again. A thread is in flight from its start until its worker's \<open>finished\<close> has quit it.
  Every worker is given the same model and the same provinces frame.
\<close>

record app =
  analyze_btn_enabled :: bool
  worker_thread :: "nat option"
  in_flight :: "nat list"
  next_thread :: nat

datatype gui_event = Clicked | Timeout | Outcome | ThreadFinished nat

definition init_app :: app where
  "init_app = \<lparr>analyze_btn_enabled = True, worker_thread = None, in_flight = [], next_thread = 0\<rparr>"

definition start_analysis :: "app \<Rightarrow> app" where
  "start_analysis a =
     a\<lparr>analyze_btn_enabled := False,
       worker_thread := Some (next_thread a),
       in_flight := in_flight a @ [next_thread a],
       next_thread := Suc (next_thread a)\<rparr>"

definition handle_outcome :: "app \<Rightarrow> app" where
  "handle_outcome a = a\<lparr>analyze_btn_enabled := True\<rparr>"

fun dispatch :: "app \<Rightarrow> gui_event \<Rightarrow> app" where
  "dispatch a Clicked = (if analyze_btn_enabled a then start_analysis a else a)"
| "dispatch a Timeout = start_analysis a"
| "dispatch a Outcome = handle_outcome a"
| "dispatch a (ThreadFinished t) = a\<lparr>in_flight := removeAll t (in_flight a)\<rparr>"

definition event_loop :: "app \<Rightarrow> gui_event list \<Rightarrow> app" where
  "event_loop a evs = foldl dispatch a evs"

section \<open>Reading the result\<close>

text \<open>The mapping from province name to risk that a frame with a risk column holds.\<close>

definition region_risk_map :: "frame \<Rightarrow> string \<rightharpoonup> real" where
  "region_risk_map f =
     (case risk f of
        None \<Rightarrow> Map.empty
      | Some rs \<Rightarrow> map_of (zip (map region_name (rows f)) rs))"

fun is_outcome :: "signal \<Rightarrow> bool" where
  "is_outcome (SigError m) = True"
| "is_outcome (SigResult p evs provs) = True"
| "is_outcome SigFinished = False"

fun is_result :: "signal \<Rightarrow> bool" where
  "is_result (SigResult p evs provs) = True"
| "is_result s = False"

text \<open>
  The value of a feature in an event, as a number (0 where the event has no number
  there), and the arithmetic mean of a feature over a list of events.
\<close>

definition field_val :: "string \<Rightarrow> pydict \<Rightarrow> real" where
  "field_val feat e =
     (case map_of e feat of
        None \<Rightarrow> 0
      | Some v \<Rightarrow> (case as_number v of None \<Rightarrow> 0 | Some r \<Rightarrow> r))"

definition numeric_field :: "string \<Rightarrow> pydict \<Rightarrow> bool" where
  "numeric_field feat e =
     (case map_of e feat of None \<Rightarrow> False | Some v \<Rightarrow> as_number v \<noteq> None)"

definition numeric_event :: "pydict \<Rightarrow> bool" where
  "numeric_event e = list_all (\<lambda>feat. numeric_field feat e) training_features"

definition field_mean :: "string \<Rightarrow> pydict list \<Rightarrow> real" where
  "field_mean feat events = sum_list (map (field_val feat) events) / real (length events)"

section \<open>Sample data\<close>

definition sample_feature :: "real \<Rightarrow> real \<Rightarrow> real \<Rightarrow> pyval" where
  "sample_feature m t d =
     PDict [(''properties'', PDict [(''mag'', PNum m), (''time'', PNum t), (''nst'', PNum 12),
                                   (''gap'', PNum 90), (''dmin'', PNum 1), (''rms'', PNum 1)]),
            (''geometry'', PDict [(''coordinates'', PList [PNum 30, PNum 39, PNum d])])]"

definition sample_response :: pyval where
  "sample_response = PDict [(''features'', PList [sample_feature 4 1000 10])]"

definition sample_events :: "pydict list" where
  "sample_events =
     [[(''time'', PDatetime 1000000), (''mag'', PNum 4), (''depth'', PNum 10),
       (''nst'', PNum 12), (''gap'', PNum 90), (''dmin'', PNum 1), (''rms'', PNum 1)]]"

definition empty_response :: pyval where
  "empty_response = PDict [(''features'', PList [])]"

definition three_provinces :: heap where
  "three_provinces =
     [\<lparr>rows = [\<lparr>region_name = ''Adana'', bounds = (34, 36, 36, 38)\<rparr>,
               \<lparr>region_name = ''Bolu'', bounds = (30, 40, 32, 41)\<rparr>,
               \<lparr>region_name = ''Van'', bounds = (42, 37, 44, 39)\<rparr>],
       risk = None\<rparr>]"

definition half_classifier :: classifier where
  "half_classifier row = Inr (1 / 2)"

definition sample_worker :: worker where
  "sample_worker =
     \<lparr>model = half_classifier, provinces = 0, start = 0, stop = 86400000000,
      threshold = 50\<rparr>"

text \<open>The second province's request fails with an HTTP error; the others are answered.\<close>

definition catalog_one_failure :: catalog where
  "catalog_one_failure k q = (if k = 2 then Inl (RequestError 503) else Inr sample_response)"

text \<open>Only the nationwide request is answered.\<close>

definition catalog_regions_down :: catalog where
  "catalog_regions_down k q = (if k = 0 then Inr sample_response else Inl (RequestError 500))"

text \<open>Every request is answered; the third province has no events.\<close>

definition catalog_up :: catalog where
  "catalog_up k q = (if k = 3 then Inr empty_response else Inr sample_response)"

text \<open>A record with a magnitude and three coordinates, and no \<open>time\<close>.\<close>

definition response_without_time :: pyval where
  "response_without_time =
     PDict [(''features'', PList [
        sample_feature 4 1000 10,
        PDict [(''properties'', PDict [(''mag'', PNum 5)]),
               (''geometry'', PDict [(''coordinates'', PList [PNum 30, PNum 39, PNum 7])])]])]"

text \<open>A record whose geometry is null, as GeoJSON allows for a feature without a location.\<close>

definition response_null_geometry :: pyval where
  "response_null_geometry =
     PDict [(''features'', PList [
        sample_feature 4 1000 10,
        PDict [(''properties'', PDict [(''mag'', PNum 5), (''time'', PNum 2000)]),
               (''geometry'', PNone)]])]"

text \<open>Two events; the second has a boolean where a number is expected.\<close>

definition two_events :: "pydict list" where
  "two_events =
     [[(''time'', PDatetime 1000000), (''mag'', PNum 4), (''depth'', PNum 10),
       (''nst'', PNum 12), (''gap'', PNum 90), (''dmin'', PNum 1), (''rms'', PNum 1)],
      [(''time'', PDatetime 2000000), (''mag'', PNum 5), (''depth'', PNum 7),
       (''nst'', PNum 0), (''gap'', PNum 30), (''dmin'', PNum 2), (''rms'', PBool True)]]"

text \<open>A record with a magnitude, three coordinates and a time, and no \<open>nst\<close>.\<close>

definition feature_without_nst :: "(string \<times> pyval) list" where
  "feature_without_nst =
     [(''properties'', PDict [(''mag'', PNum 3), (''time'', PNum 5000), (''gap'', PNum 40),
                             (''dmin'', PNum 2), (''rms'', PNum 1)]),
      (''geometry'', PDict [(''coordinates'', PList [PNum 30, PNum 39, PNum 8])])]"

text \<open>
  A response whose one record has a magnitude, three coordinates and a time, and the
  key \<open>nst\<close> with the value null; the events the parser builds from it; a catalog that
  answers every request with it.
\<close>

definition response_null_nst :: pyval where
  "response_null_nst =
     PDict [(''features'', PList [
        PDict [(''properties'', PDict [(''mag'', PNum 4), (''time'', PNum 1000), (''nst'', PNone),
                                      (''gap'', PNum 90), (''dmin'', PNum 1), (''rms'', PNum 1)]),
               (''geometry'', PDict [(''coordinates'', PList [PNum 30, PNum 39, PNum 10])])]])]"

definition events_null_nst :: "pydict list" where
  "events_null_nst =
     [[(''time'', PDatetime 1000000), (''mag'', PNum 4), (''depth'', PNum 10),
       (''nst'', PNone), (''gap'', PNum 90), (''dmin'', PNum 1), (''rms'', PNum 1)]]"

definition catalog_null_nst :: catalog where
  "catalog_null_nst k q = Inr response_null_nst"

section \<open>Sequencing and aggregation: auxiliary facts\<close>

lemma bind_exn_Inl [simp]: "bind_exn (Inl x) f = Inl x"
  by (simp add: bind_exn_def)

lemma bind_exn_Inr [simp]: "bind_exn (Inr v) f = f v"
  by (simp add: bind_exn_def)

lemma bind_exn_eq_Inr: "bind_exn m f = Inr y \<longleftrightarrow> (\<exists>v. m = Inr v \<and> f v = Inr y)"
  by (cases m) simp_all

lemma bind_exn_eq_Inl: "bind_exn m f = Inl x \<longleftrightarrow> m = Inl x \<or> (\<exists>v. m = Inr v \<and> f v = Inl x)"
  by (cases m) simp_all

lemma exact_sum_numeric:
  "\<forall>v \<in> set vs. as_number v \<noteq> None \<Longrightarrow>
   exact_sum vs acc = Inr (acc + sum_list (map (\<lambda>v. case as_number v of None \<Rightarrow> 0 | Some r \<Rightarrow> r) vs))"
  by (induction vs arbitrary: acc) (auto simp: add.assoc)

lemma exact_sum_Inr:
  "exact_sum vs acc = Inr s \<Longrightarrow> \<forall>v \<in> set vs. as_number v \<noteq> None"
  by (induction vs arbitrary: acc) (auto split: option.splits)

lemma column_Inr:
  "column feat es = Inr vs \<longleftrightarrow> list_all2 (\<lambda>v e. map_of e feat = Some v) vs es"
proof (induction es arbitrary: vs)
  case Nil
  then show ?case by auto
next
  case (Cons e es)
  show ?case
  proof (cases "map_of e feat")
    case None
    then show ?thesis by (auto simp: getitem_def list_all2_Cons2)
  next
    case (Some v)
    then show ?thesis
      using Cons.IH by (cases "column feat es") (auto simp: getitem_def list_all2_Cons2)
  qed
qed

lemma column_field_val:
  "list_all2 (\<lambda>v e. map_of e feat = Some v) vs es \<Longrightarrow>
   map (\<lambda>v. case as_number v of None \<Rightarrow> 0 | Some r \<Rightarrow> r) vs = map (field_val feat) es"
  by (induction vs es rule: list_all2_induct) (simp_all add: field_val_def)

lemma column_numeric_field:
  "list_all2 (\<lambda>v e. map_of e feat = Some v) vs es \<Longrightarrow>
   (\<forall>v \<in> set vs. as_number v \<noteq> None) = (\<forall>e \<in> set es. numeric_field feat e)"
  by (induction vs es rule: list_all2_induct) (simp_all add: numeric_field_def)

lemma column_total:
  "\<forall>e \<in> set es. numeric_field feat e \<Longrightarrow>
   \<exists>vs. list_all2 (\<lambda>v e. map_of e feat = Some v) vs es"
proof (induction es)
  case Nil
  then show ?case by simp
next
  case (Cons e es)
  then obtain vs where vs: "list_all2 (\<lambda>v e. map_of e feat = Some v) vs es"
    by auto
  from Cons.prems obtain v where v: "map_of e feat = Some v"
    by (auto simp: numeric_field_def split: option.splits)
  from vs v have "list_all2 (\<lambda>v e. map_of e feat = Some v) (v # vs) (e # es)"
    by simp
  then show ?case by blast
qed

lemma mean_py_numeric:
  "vs \<noteq> [] \<Longrightarrow> \<forall>v \<in> set vs. as_number v \<noteq> None \<Longrightarrow>
   mean_py vs =
     Inr (sum_list (map (\<lambda>v. case as_number v of None \<Rightarrow> 0 | Some r \<Rightarrow> r) vs) / real (length vs))"
  by (simp add: mean_py_def exact_sum_numeric)

lemma mean_py_Inr:
  "mean_py vs = Inr m \<Longrightarrow> vs \<noteq> [] \<and> (\<forall>v \<in> set vs. as_number v \<noteq> None)"
  by (cases "exact_sum vs 0") (auto simp: mean_py_def dest: exact_sum_Inr split: if_splits)

lemma column_mean_Inr:
  assumes "bind_exn (column feat es) mean_py = Inr m"
  shows "es \<noteq> [] \<and> (\<forall>e \<in> set es. numeric_field feat e) \<and> m = field_mean feat es"
proof -
  from assms obtain vs where vs: "column feat es = Inr vs" and m: "mean_py vs = Inr m"
    by (auto simp: bind_exn_eq_Inr)
  from vs have rel: "list_all2 (\<lambda>v e. map_of e feat = Some v) vs es"
    by (simp add: column_Inr)
  then have len: "length vs = length es"
    by (rule list_all2_lengthD)
  from mean_py_Inr[OF m] have ne: "vs \<noteq> []" and num: "\<forall>v \<in> set vs. as_number v \<noteq> None"
    by auto
  from num column_numeric_field[OF rel] have nf: "\<forall>e \<in> set es. numeric_field feat e"
    by blast
  from m mean_py_numeric[OF ne num]
  have "m = sum_list (map (\<lambda>v. case as_number v of None \<Rightarrow> 0 | Some r \<Rightarrow> r) vs) / real (length vs)"
    by simp
  then have "m = field_mean feat es"
    by (simp add: column_field_val[OF rel] len field_mean_def)
  moreover from ne len have "es \<noteq> []" by auto
  ultimately show ?thesis using nf by simp
qed

lemma column_mean_numeric:
  assumes "es \<noteq> []" and "\<forall>e \<in> set es. numeric_field feat e"
  shows "bind_exn (column feat es) mean_py = Inr (field_mean feat es)"
proof -
  from column_total[OF assms(2)] obtain vs
    where rel: "list_all2 (\<lambda>v e. map_of e feat = Some v) vs es" by blast
  then have col: "column feat es = Inr vs" by (simp add: column_Inr)
  from rel have len: "length vs = length es" by (rule list_all2_lengthD)
  with assms(1) have ne: "vs \<noteq> []" by auto
  from assms(2) column_numeric_field[OF rel] have num: "\<forall>v \<in> set vs. as_number v \<noteq> None"
    by blast
  from mean_py_numeric[OF ne num] col show ?thesis
    by (simp add: column_field_val[OF rel] len field_mean_def)
qed

lemma feature_loop_step:
  "feature_loop (feat # feats) (e0 # rest) vals =
     (if feat \<in> fst ` set e0
      then bind_exn (bind_exn (column feat (e0 # rest)) mean_py)
             (\<lambda>m. feature_loop feats (e0 # rest) (vals @ [m]))
      else Inl ValueError)"
  by (cases "column feat (e0 # rest)") (simp_all del: column.simps)

lemma numeric_field_mem: "numeric_field feat e \<Longrightarrow> feat \<in> fst ` set e"
  by (auto simp: numeric_field_def split: option.splits dest!: map_of_SomeD intro: rev_image_eqI)

lemma feature_loop_numeric:
  assumes "events \<noteq> []" and "\<forall>e \<in> set events. \<forall>f \<in> set feats. numeric_field f e"
  shows "feature_loop feats events vals = Inr (vals @ map (\<lambda>f. field_mean f events) feats)"
  using assms(2)
proof (induction feats arbitrary: vals)
  case Nil
  then show ?case by simp
next
  case (Cons feat feats)
  from assms(1) obtain e0 rest where ev: "events = e0 # rest" by (cases events) auto
  from Cons.prems have nf: "\<forall>e \<in> set events. numeric_field feat e" by simp
  with ev have mem: "feat \<in> fst ` set e0" by (simp add: numeric_field_mem)
  have "feature_loop (feat # feats) events vals =
        bind_exn (bind_exn (column feat events) mean_py) (\<lambda>m. feature_loop feats events (vals @ [m]))"
    unfolding ev using mem by (simp only: feature_loop_step if_True)
  also have "\<dots> = feature_loop feats events (vals @ [field_mean feat events])"
    by (simp only: column_mean_numeric[OF assms(1) nf] bind_exn_Inr)
  also have "\<dots> = Inr ((vals @ [field_mean feat events]) @ map (\<lambda>f. field_mean f events) feats)"
    using Cons.prems by (intro Cons.IH) simp
  finally show ?case by simp
qed

lemma feature_loop_Inr:
  assumes "feature_loop feats events vals = Inr row" and "events \<noteq> []"
  shows "(\<forall>e \<in> set events. \<forall>f \<in> set feats. numeric_field f e) \<and>
         row = vals @ map (\<lambda>f. field_mean f events) feats"
  using assms(1)
proof (induction feats arbitrary: vals)
  case Nil
  then show ?case by simp
next
  case (Cons feat feats)
  from assms(2) obtain e0 rest where ev: "events = e0 # rest" by (cases events) auto
  from Cons.prems have
    "bind_exn (bind_exn (column feat events) mean_py) (\<lambda>m. feature_loop feats events (vals @ [m])) = Inr row"
    unfolding ev by (simp add: feature_loop_step del: feature_loop.simps column.simps split: if_splits)
  then obtain m where m: "bind_exn (column feat events) mean_py = Inr m"
    and rest: "feature_loop feats events (vals @ [m]) = Inr row"
    by (auto simp: bind_exn_eq_Inr)
  from column_mean_Inr[OF m] have nf: "\<forall>e \<in> set events. numeric_field feat e"
    and mm: "m = field_mean feat events" by auto
  from Cons.IH[OF rest] nf mm show ?case by auto
qed

lemma field_mean_mset:
  assumes "mset events' = mset events"
  shows "field_mean feat events' = field_mean feat events"
proof -
  have "sum_list (map (field_val feat) events') = sum_mset (image_mset (field_val feat) (mset events'))"
    by (simp add: sum_mset_sum_list[symmetric])
  also have "\<dots> = sum_list (map (field_val feat) events)"
    by (simp add: assms sum_mset_sum_list[symmetric])
  finally have "sum_list (map (field_val feat) events') = sum_list (map (field_val feat) events)" .
  moreover from assms have "length events' = length events"
    by (rule mset_eq_length)
  ultimately show ?thesis by (simp add: field_mean_def)
qed

lemma feature_values_numeric:
  assumes "events \<noteq> []" and "list_all numeric_event events"
  shows "feature_values events = Inr (map (\<lambda>f. field_mean f events) training_features)"
proof -
  from assms(2) have "\<forall>e \<in> set events. \<forall>f \<in> set training_features. numeric_field f e"
    by (simp add: list_all_iff numeric_event_def)
  from feature_loop_numeric[OF assms(1) this, of "[]"] show ?thesis
    by (simp add: feature_values_def)
qed

lemma predict_risk_scaled:
  "events \<noteq> [] \<Longrightarrow> feature_values events = Inr row \<Longrightarrow> clf row = Inr p \<Longrightarrow>
   predict_risk clf events = Inr (100 * p)"
  by (simp add: predict_risk_def)

lemma predict_risk_Inr:
  "predict_risk clf events = Inr r \<Longrightarrow>
   (events = [] \<and> r = 0) \<or>
   (events \<noteq> [] \<and> (\<exists>row p. feature_values events = Inr row \<and> clf row = Inr p \<and> r = 100 * p))"
  by (auto simp: predict_risk_def bind_exn_eq_Inr split: if_splits)

lemma sweep_step:
  "sweep cat clf st en k (row # rest) risks = Inr out \<longleftrightarrow>
   (\<exists>evs r. fetch_events cat k st en (Some (region_bbox row)) = Inr evs \<and>
      (if evs \<noteq> [] then predict_risk clf evs else Inr 0) = Inr r \<and>
      sweep cat clf st en (Suc k) rest (risks @ [r]) = Inr out)"
  by (simp add: bind_exn_eq_Inr)

lemma sweep_Inr:
  "sweep cat clf st en k regions risks = Inr out \<Longrightarrow>
   \<exists>new. out = risks @ new \<and> length new = length regions \<and>
     (\<forall>i < length regions. \<exists>evs.
        fetch_events cat (k + i) st en (Some (region_bbox (regions ! i))) = Inr evs \<and>
        (if evs \<noteq> [] then predict_risk clf evs else Inr 0) = Inr (new ! i))"
proof (induction regions arbitrary: k risks)
  case Nil
  then show ?case by simp
next
  case (Cons row rest)
  from Cons.prems obtain evs r where
    f: "fetch_events cat k st en (Some (region_bbox row)) = Inr evs"
    and p: "(if evs \<noteq> [] then predict_risk clf evs else Inr 0) = Inr r"
    and s: "sweep cat clf st en (Suc k) rest (risks @ [r]) = Inr out"
    unfolding sweep_step by blast
  from Cons.IH[OF s] obtain new where
    out: "out = (risks @ [r]) @ new" and len: "length new = length rest"
    and each: "\<forall>i < length rest. \<exists>evs.
        fetch_events cat (Suc k + i) st en (Some (region_bbox (rest ! i))) = Inr evs \<and>
        (if evs \<noteq> [] then predict_risk clf evs else Inr 0) = Inr (new ! i)"
    by blast
  have "\<forall>i < length (row # rest). \<exists>evs.
        fetch_events cat (k + i) st en (Some (region_bbox ((row # rest) ! i))) = Inr evs \<and>
        (if evs \<noteq> [] then predict_risk clf evs else Inr 0) = Inr ((r # new) ! i)"
  proof (intro allI impI)
    fix i assume i: "i < length (row # rest)"
    show "\<exists>evs. fetch_events cat (k + i) st en (Some (region_bbox ((row # rest) ! i))) = Inr evs \<and>
        (if evs \<noteq> [] then predict_risk clf evs else Inr 0) = Inr ((r # new) ! i)"
    proof (cases i)
      case 0
      with f p show ?thesis by auto
    next
      case (Suc j)
      with i have "j < length rest" by simp
      with each Suc show ?thesis by simp
    qed
  qed
  with out len show ?case
    by (intro exI[of _ "r # new"]) simp
qed

section \<open>The run: auxiliary facts\<close>

lemma set_risk_fresh:
  "length risks = length (rows f) \<Longrightarrow>
   set_risk (h @ [f]) (length h) risks = Inr (h @ [f\<lparr>risk := Some risks\<rparr>])"
  by (simp add: set_risk_def)

lemma sweep_length:
  "sweep cat clf st en k regions [] = Inr risks \<Longrightarrow> length risks = length regions"
  by (drule sweep_Inr) auto

lemma run_provinces_result:
  assumes "run_provinces cat w h proba events = (h', sigs, xo)"
  shows "(\<exists>x. xo = Some x \<and> sigs = [] \<and>
            (h' = h \<or> provinces w < length h \<and> h' = h @ [h ! provinces w]))
       \<or> (xo = None \<and> provinces w < length h \<and>
            (\<exists>risks. sweep cat (model w) (start w) (stop w) 1 (rows (h ! provinces w)) [] = Inr risks \<and>
               h' = h @ [(h ! provinces w)\<lparr>risk := Some risks\<rparr>] \<and>
               sigs = [SigResult proba events (length h)]))"
proof (cases "provinces w < length h")
  case False
  with assms show ?thesis
    by (auto simp: run_provinces_def copy_frame_def)
next
  case valid: True
  show ?thesis
  proof (cases "sweep cat (model w) (start w) (stop w) 1 (rows (h ! provinces w)) []")
    case (Inl x)
    with assms valid show ?thesis
      by (auto simp: run_provinces_def copy_frame_def nth_append)
  next
    case (Inr risks)
    from sweep_length[OF Inr] have "length risks = length (rows (h ! provinces w))" .
    from set_risk_fresh[OF this, of h] assms valid Inr show ?thesis
      by (auto simp: run_provinces_def copy_frame_def nth_append)
  qed
qed

lemma run_result:
  assumes "run cat w h = (h', sigs)"
  shows "(\<exists>x. sigs = [SigError (CalcError x), SigFinished] \<and>
            (h' = h \<or> provinces w < length h \<and> h' = h @ [h ! provinces w]))
       \<or> (sigs = [SigError NoData, SigFinished, SigFinished] \<and> h' = h \<and>
            fetch_events cat 0 (start w) (stop w) None = Inr [])
       \<or> (\<exists>proba events risks.
            sigs = [SigResult proba events (length h), SigFinished] \<and>
            provinces w < length h \<and>
            h' = h @ [(h ! provinces w)\<lparr>risk := Some risks\<rparr>] \<and>
            fetch_events cat 0 (start w) (stop w) None = Inr events \<and> events \<noteq> [] \<and>
            predict_risk (model w) events = Inr proba \<and>
            sweep cat (model w) (start w) (stop w) 1 (rows (h ! provinces w)) [] = Inr risks)"
proof (cases "fetch_events cat 0 (start w) (stop w) None")
  case (Inl x)
  with assms show ?thesis by (auto simp: run_def run_try_def)
next
  case (Inr events)
  show ?thesis
  proof (cases "events = []")
    case True
    with assms Inr show ?thesis by (auto simp: run_def run_try_def)
  next
    case ne: False
    show ?thesis
    proof (cases "predict_risk (model w) events")
      case (Inl x)
      with assms Inr ne show ?thesis by (auto simp: run_def run_try_def)
    next
      case pr: (Inr proba)
      obtain h1 s1 x1 where rp: "run_provinces cat w h proba events = (h1, s1, x1)"
        by (cases "run_provinces cat w h proba events") auto
      from assms Inr ne pr rp have r: "(h', sigs) =
          (case x1 of None \<Rightarrow> (h1, s1 @ [SigFinished])
           | Some x \<Rightarrow> (h1, s1 @ [SigError (CalcError x), SigFinished]))"
        by (simp add: run_def run_try_def)
      from run_provinces_result[OF rp] r Inr ne pr show ?thesis
        by (elim disjE exE conjE) auto
    qed
  qed
qed

section \<open>The sample data: evaluation\<close>

lemmas parse_defs = parse_earthquake_data_def parse_feature_def build_event_def dict_get_def
  getitem_def py_iter_def py_len_def index2_def as_number_def div1000_def round_half_even_def
  min_datetime_us_def max_datetime_us_def utcfromtimestamp_def

lemma parse_sample_response: "parse_earthquake_data sample_response = Inr sample_events"
  by (simp add: sample_response_def sample_feature_def sample_events_def parse_defs)

lemma parse_empty_response: "parse_earthquake_data empty_response = Inr []"
  by (simp add: empty_response_def parse_earthquake_data_def dict_get_def py_iter_def)

lemma feature_values_sample: "feature_values sample_events = Inr [4, 10, 12, 90, 1, 1]"
  by (simp add: feature_values_def training_features_def sample_events_def mean_py_def
      getitem_def as_number_def)

lemma sample_events_nonempty: "sample_events \<noteq> []"
  by (simp add: sample_events_def)

lemma predict_risk_sample: "predict_risk half_classifier sample_events = Inr 50"
  using sample_events_nonempty
  by (simp add: predict_risk_def feature_values_sample half_classifier_def)

lemma sweep_append:
  "sweep cat clf st en k (pre @ post) risks =
     bind_exn (sweep cat clf st en k pre risks) (\<lambda>rs. sweep cat clf st en (k + length pre) post rs)"
proof (induction pre arbitrary: k risks)
  case Nil
  then show ?case by simp
next
  case (Cons row pre)
  show ?case
  proof (cases "fetch_events cat k st en (Some (region_bbox row))")
    case (Inl x)
    then show ?thesis by simp
  next
    case (Inr evs)
    show ?thesis
    proof (cases "if evs \<noteq> [] then predict_risk clf evs else Inr 0")
      case (Inl x)
      with Inr show ?thesis by simp
    next
      case r: (Inr r)
      with Inr show ?thesis by (simp add: Cons.IH)
    qed
  qed
qed

lemma run_catalog_up:
  "run catalog_up sample_worker three_provinces =
     (three_provinces @ [(three_provinces ! 0)\<lparr>risk := Some [50, 50, 0]\<rparr>],
      [SigResult 50 sample_events 1, SigFinished])"
proof -
  have ev: "sample_events \<noteq> []" by (rule sample_events_nonempty)
  have "run_provinces catalog_up sample_worker three_provinces 50 sample_events =
      (three_provinces @ [(three_provinces ! 0)\<lparr>risk := Some [50, 50, 0]\<rparr>],
       [SigResult 50 sample_events 1], None)"
    using ev
    by (simp add: run_provinces_def copy_frame_def set_risk_def three_provinces_def
        sample_worker_def fetch_events_def catalog_up_def parse_sample_response
        parse_empty_response predict_risk_sample)
  then show ?thesis
    using ev
    by (simp add: run_def run_try_def fetch_events_def catalog_up_def
        parse_sample_response sample_worker_def predict_risk_sample)
qed

section \<open>The parser on a well-formed record\<close>

lemma parse_feature_wellformed:
  assumes "map_of feature ''properties'' = Some (PDict props)"
    and "map_of feature ''geometry'' = Some (PDict geometry)"
    and "map_of geometry ''coordinates'' = Some (PList coords)"
    and "3 \<le> length coords"
    and "map_of props ''mag'' = Some m" and "m \<noteq> PNone"
    and "map_of props ''time'' = Some t"
    and "div1000 t = Inr secs" and "utcfromtimestamp secs = Inr time"
  shows "parse_feature (PDict feature) =
     Inr (Some [(''time'', time), (''mag'', m), (''depth'', coords ! 2),
                (''nst'', case map_of props ''nst'' of None \<Rightarrow> PNum 0 | Some v \<Rightarrow> v),
                (''gap'', case map_of props ''gap'' of None \<Rightarrow> PNum 0 | Some v \<Rightarrow> v),
                (''dmin'', case map_of props ''dmin'' of None \<Rightarrow> PNum 0 | Some v \<Rightarrow> v),
                (''rms'', case map_of props ''rms'' of None \<Rightarrow> PNum 0 | Some v \<Rightarrow> v)])"
proof -
  from assms(4) have "2 < length coords" by simp
  then have d: "index2 (PList coords) = Inr (coords ! 2)"
    by (simp add: index2_def)
  have b: "build_event (PDict props) (PList coords) =
     Inr [(''time'', time), (''mag'', m), (''depth'', coords ! 2),
          (''nst'', case map_of props ''nst'' of None \<Rightarrow> PNum 0 | Some v \<Rightarrow> v),
          (''gap'', case map_of props ''gap'' of None \<Rightarrow> PNum 0 | Some v \<Rightarrow> v),
          (''dmin'', case map_of props ''dmin'' of None \<Rightarrow> PNum 0 | Some v \<Rightarrow> v),
          (''rms'', case map_of props ''rms'' of None \<Rightarrow> PNum 0 | Some v \<Rightarrow> v)]"
    by (simp add: build_event_def getitem_def dict_get_def assms(5,7,8,9) d)
  show ?thesis
    using assms(4,6)
    by (simp add: parse_feature_def dict_get_def py_len_def assms(1,2,3,5) b)
qed

section \<open>Claims\<close>

subsection \<open>C1: a province whose fetch fails\<close>

text \<open>
  C1 says that a failing fetch for one province leaves the run successful, with risk 0
  for that province. In the code the loop over the provinces has no handler of its own:
  the exception leaves the loop and reaches the one \<^verbatim>\<open>except\<close> of \<open>run\<close>. With the
  second of three provinces failing, the run emits the error and no result.
\<close>

theorem C1_failed_region_is_not_zeroed:
  "fetch_events catalog_one_failure 1 0 86400000000
       (Some (region_bbox (rows (three_provinces ! 0) ! 0))) = Inr sample_events
   \<and> fetch_events catalog_one_failure 2 0 86400000000
       (Some (region_bbox (rows (three_provinces ! 0) ! 1))) = Inl (RequestError 503)
   \<and> fetch_events catalog_one_failure 3 0 86400000000
       (Some (region_bbox (rows (three_provinces ! 0) ! 2))) = Inr sample_events
   \<and> snd (run catalog_one_failure sample_worker three_provinces) =
       [SigError (CalcError (RequestError 503)), SigFinished]
   \<and> filter is_result (snd (run catalog_one_failure sample_worker three_provinces)) = []"
proof -
  have ev: "sample_events \<noteq> []" by (rule sample_events_nonempty)
  have "run_provinces catalog_one_failure sample_worker three_provinces 50 sample_events =
      (three_provinces @ [three_provinces ! 0], [], Some (RequestError 503))"
    using ev
    by (simp add: run_provinces_def copy_frame_def three_provinces_def sample_worker_def
        fetch_events_def catalog_one_failure_def parse_sample_response predict_risk_sample)
  then have "run catalog_one_failure sample_worker three_provinces =
      (three_provinces @ [three_provinces ! 0],
       [SigError (CalcError (RequestError 503)), SigFinished])"
    using ev
    by (simp add: run_def run_try_def fetch_events_def catalog_one_failure_def
        parse_sample_response sample_worker_def predict_risk_sample)
  then show ?thesis
    by (simp add: fetch_events_def catalog_one_failure_def parse_sample_response)
qed

text \<open>
  C1, amended: when the nationwide fetch and score have succeeded and the fetch for one
  province raises (the provinces before it having been fetched and scored), the run
  emits exactly the error signal with that exception, then \<open>finished\<close>, and no result;
  the private copy of the frame is left as it was copied, so no province is given a
  risk, whether 0 or computed.
\<close>

theorem C1_region_fetch_failure_fails_run:
  assumes "fetch_events cat 0 (start w) (stop w) None = Inr events" and "events \<noteq> []"
    and "predict_risk (model w) events = Inr proba"
    and "provinces w < length h" and "rows (h ! provinces w) = pre @ r # post"
    and "sweep cat (model w) (start w) (stop w) 1 pre [] = Inr risks"
    and "fetch_events cat (Suc (length pre)) (start w) (stop w) (Some (region_bbox r)) = Inl x"
  shows "run cat w h = (h @ [h ! provinces w], [SigError (CalcError x), SigFinished])"
proof -
  have "sweep cat (model w) (start w) (stop w) 1 (pre @ r # post) [] = Inl x"
    using assms(6,7) by (simp add: sweep_append)
  with assms(4,5) have "run_provinces cat w h proba events = (h @ [h ! provinces w], [], Some x)"
    by (simp add: run_provinces_def copy_frame_def)
  with assms(1,2,3) show ?thesis
    by (simp add: run_def run_try_def)
qed

theorem C1_region_fetch_failure_fails_run_witness:
  "run catalog_one_failure sample_worker three_provinces =
     (three_provinces @ [three_provinces ! provinces sample_worker],
      [SigError (CalcError (RequestError 503)), SigFinished])"
proof -
  let ?adana = "\<lparr>region_name = ''Adana'', bounds = (34, 36, 36, 38)\<rparr>"
  let ?bolu = "\<lparr>region_name = ''Bolu'', bounds = (30, 40, 32, 41)\<rparr>"
  let ?van = "\<lparr>region_name = ''Van'', bounds = (42, 37, 44, 39)\<rparr>"
  have 1: "fetch_events catalog_one_failure 0 (start sample_worker) (stop sample_worker) None
           = Inr sample_events"
    by (simp add: fetch_events_def catalog_one_failure_def parse_sample_response)
  have 3: "predict_risk (model sample_worker) sample_events = Inr 50"
    by (simp add: sample_worker_def predict_risk_sample)
  have 4: "provinces sample_worker < length three_provinces"
    by (simp add: sample_worker_def three_provinces_def)
  have 5: "rows (three_provinces ! provinces sample_worker) = [?adana] @ ?bolu # [?van]"
    by (simp add: sample_worker_def three_provinces_def)
  have 6: "sweep catalog_one_failure (model sample_worker) (start sample_worker)
             (stop sample_worker) 1 [?adana] [] = Inr [50]"
    using sample_events_nonempty
    by (simp add: fetch_events_def catalog_one_failure_def parse_sample_response
        sample_worker_def predict_risk_sample)
  have 7: "fetch_events catalog_one_failure (Suc (length [?adana])) (start sample_worker)
             (stop sample_worker) (Some (region_bbox ?bolu)) = Inl (RequestError 503)"
    by (simp add: fetch_events_def catalog_one_failure_def)
  from C1_region_fetch_failure_fails_run[OF 1 sample_events_nonempty 3 4 5 6 7]
  show ?thesis .
qed

subsection \<open>C2: a start request during a run\<close>

text \<open>
  C2: while a run is in flight, a start request is rejected or deferred. The code
  rejects the button (it is disabled during a run), but the timer's \<open>timeout\<close> calls
  \<open>start_analysis\<close> unguarded: after a click and a timeout, or two timeouts, with no
  run finished in between, two worker threads are in flight on the same provinces
  frame. A second click is rejected.
\<close>

theorem C2_timer_starts_second_run:
  "in_flight (event_loop init_app [Clicked, Timeout]) = [0, 1]
   \<and> in_flight (event_loop init_app [Timeout, Timeout]) = [0, 1]
   \<and> in_flight (event_loop init_app [Clicked, Clicked]) = [0]"
  by (simp add: event_loop_def init_app_def start_analysis_def)

subsection \<open>C3: the empty event list\<close>

text \<open>
  On the empty list \<open>predict_risk\<close> does not reach the aggregation: its guard
  \<^verbatim>\<open>if not events: return 0.0\<close> returns 0, whatever the classifier is.
\<close>

lemma predict_risk_empty: "predict_risk clf [] = Inr 0"
  by (simp add: predict_risk_def)

text \<open>
  C3: for the empty event list the feature aggregation (the loop of lines 126 to 132,
  \<open>feature_values\<close>) fails and returns no row: \<^verbatim>\<open>events[0]\<close> raises
  \<^verbatim>\<open>IndexError\<close> for the first feature; and \<^verbatim>\<open>statistics.mean\<close>, the averaging
  itself, raises \<^verbatim>\<open>StatisticsError\<close> on no data.
\<close>

theorem C3_aggregate_empty_fails:
  "feature_values [] = Inl IndexError
   \<and> (\<forall>row. feature_values [] \<noteq> Inr row)
   \<and> mean_py [] = Inl StatisticsError"
proof (intro conjI allI)
  show e: "feature_values [] = Inl IndexError"
    by (simp add: feature_values_def training_features_def)
  show "feature_values [] \<noteq> Inr row" for row
    by (simp add: e)
  show "mean_py [] = Inl StatisticsError"
    by (simp add: mean_py_def)
qed

subsection \<open>C4: what a run writes\<close>

text \<open>
  C4 says that the shared region set is mutated in place, once per run. In the code the
  run works on \<^verbatim>\<open>self.provinces.copy()\<close>: after a successful run the shared frame is
  what it was, without a risk column; the risks are in the copy.
\<close>

theorem C4_shared_frame_keeps_no_risk:
  "snd (run catalog_up sample_worker three_provinces) = [SigResult 50 sample_events 1, SigFinished]
   \<and> fst (run catalog_up sample_worker three_provinces) ! provinces sample_worker
       = three_provinces ! provinces sample_worker
   \<and> risk (fst (run catalog_up sample_worker three_provinces) ! provinces sample_worker) = None
   \<and> risk (fst (run catalog_up sample_worker three_provinces) ! 1) = Some [50, 50, 0]"
  by (simp add: run_catalog_up) (simp add: sample_worker_def three_provinces_def)

text \<open>
  C4, amended: a run never mutates the shared region set, nor any frame that existed
  before it; it allocates at most one frame, its private copy. When it emits a result,
  the frame the result carries is that copy: the shared frame's rows with the risk
  column set, in one assignment, to the complete list of risks that the loop over the
  provinces returned. No reference to the copy leaves the run before that.
\<close>

theorem C4_run_writes_only_its_copy:
  "take (length h) (fst (run cat w h)) = h
   \<and> length (fst (run cat w h)) \<le> Suc (length h)
   \<and> (\<forall>proba events provs. SigResult proba events provs \<in> set (snd (run cat w h)) \<longrightarrow>
         provs = length h \<and> provinces w < length h \<and>
         (\<exists>risks. sweep cat (model w) (start w) (stop w) 1 (rows (h ! provinces w)) [] = Inr risks
            \<and> fst (run cat w h) ! provs = (h ! provinces w)\<lparr>risk := Some risks\<rparr>))"
proof -
  obtain h' sigs where r: "run cat w h = (h', sigs)"
    by (cases "run cat w h") auto
  from run_result[OF r] have "take (length h) h' = h"
    by (elim disjE exE conjE) simp_all
  moreover from run_result[OF r] have "length h' \<le> Suc (length h)"
    by (elim disjE exE conjE) simp_all
  moreover have "\<forall>proba events provs. SigResult proba events provs \<in> set sigs \<longrightarrow>
         provs = length h \<and> provinces w < length h \<and>
         (\<exists>risks. sweep cat (model w) (start w) (stop w) 1 (rows (h ! provinces w)) [] = Inr risks
            \<and> h' ! provs = (h ! provinces w)\<lparr>risk := Some risks\<rparr>)"
    using run_result[OF r] by (elim disjE exE conjE) auto
  ultimately show ?thesis
    unfolding r fst_conv snd_conv by (intro conjI)
qed

theorem C4_run_writes_only_its_copy_witness:
  "take (length three_provinces) (fst (run catalog_up sample_worker three_provinces)) = three_provinces
   \<and> SigResult 50 sample_events 1 \<in> set (snd (run catalog_up sample_worker three_provinces))
   \<and> 1 = length three_provinces
   \<and> fst (run catalog_up sample_worker three_provinces) ! 1
       = (three_provinces ! provinces sample_worker)\<lparr>risk := Some [50, 50, 0]\<rparr>"
proof -
  have m: "SigResult 50 sample_events 1 \<in> set (snd (run catalog_up sample_worker three_provinces))"
    by (simp add: run_catalog_up)
  have e: "fst (run catalog_up sample_worker three_provinces) ! 1
       = (three_provinces ! provinces sample_worker)\<lparr>risk := Some [50, 50, 0]\<rparr>"
    by (simp add: run_catalog_up) (simp add: three_provinces_def sample_worker_def)
  from C4_run_writes_only_its_copy[of three_provinces catalog_up sample_worker] m e
  show ?thesis by blast
qed

subsection \<open>C5: the keys of the result\<close>

text \<open>
  C5 says that the sweep returns a mapping with the keys of the input for any
  combination of succeeding and failing fetches. In the code a failing fetch ends the
  run with an error: no mapping is returned, and no frame on the heap holds a risk.
\<close>

theorem C5_no_mapping_when_fetches_fail:
  "fetch_events catalog_regions_down 0 (start sample_worker) (stop sample_worker) None
     = Inr sample_events
   \<and> snd (run catalog_regions_down sample_worker three_provinces)
     = [SigError (CalcError (RequestError 500)), SigFinished]
   \<and> filter is_result (snd (run catalog_regions_down sample_worker three_provinces)) = []
   \<and> list_all (\<lambda>f. region_risk_map f = Map.empty)
        (fst (run catalog_regions_down sample_worker three_provinces))"
proof -
  have ev: "sample_events \<noteq> []" by (rule sample_events_nonempty)
  have f0: "fetch_events catalog_regions_down 0 (start sample_worker) (stop sample_worker) None
     = Inr sample_events"
    by (simp add: fetch_events_def catalog_regions_down_def parse_sample_response)
  have "run_provinces catalog_regions_down sample_worker three_provinces 50 sample_events =
      (three_provinces @ [three_provinces ! 0], [], Some (RequestError 500))"
    by (simp add: run_provinces_def copy_frame_def three_provinces_def sample_worker_def
        fetch_events_def catalog_regions_down_def)
  then have "run catalog_regions_down sample_worker three_provinces =
      (three_provinces @ [three_provinces ! 0],
       [SigError (CalcError (RequestError 500)), SigFinished])"
    using ev f0 by (simp add: run_def run_try_def sample_worker_def predict_risk_sample)
  with f0 show ?thesis
    by (simp add: three_provinces_def region_risk_map_def)
qed

text \<open>
  C5, amended: whenever a run emits a result, the frame it carries has the rows of the
  input region set, the keys of its region-to-risk mapping are the names of the input
  regions, and every region has a risk: the fetch for each region succeeded, a region
  without events has risk 0, a region with events has the score of its events.
\<close>

theorem C5_result_keys_are_the_regions:
  assumes "run cat w h = (h', sigs)" and "SigResult proba events provs \<in> set sigs"
  shows "provinces w < length h \<and> provs < length h'
         \<and> rows (h' ! provs) = rows (h ! provinces w)
         \<and> dom (region_risk_map (h' ! provs)) = set (map region_name (rows (h ! provinces w)))
         \<and> (\<exists>risks. risk (h' ! provs) = Some risks
              \<and> length risks = length (rows (h ! provinces w))
              \<and> (\<forall>i < length risks. \<exists>evs.
                    fetch_events cat (Suc i) (start w) (stop w)
                      (Some (region_bbox (rows (h ! provinces w) ! i))) = Inr evs
                    \<and> (evs = [] \<longrightarrow> risks ! i = 0)
                    \<and> (evs \<noteq> [] \<longrightarrow> predict_risk (model w) evs = Inr (risks ! i))))"
proof -
  from run_result[OF assms(1)] assms(2) obtain risks where
    v: "provinces w < length h" and pa: "provs = length h"
    and h': "h' = h @ [(h ! provinces w)\<lparr>risk := Some risks\<rparr>]"
    and sw: "sweep cat (model w) (start w) (stop w) 1 (rows (h ! provinces w)) [] = Inr risks"
    by (elim disjE exE conjE) auto
  let ?rs = "rows (h ! provinces w)"
  from sweep_Inr[OF sw] have len: "length risks = length ?rs"
    and each: "\<forall>i < length ?rs. \<exists>evs.
        fetch_events cat (1 + i) (start w) (stop w) (Some (region_bbox (?rs ! i))) = Inr evs \<and>
        (if evs \<noteq> [] then predict_risk (model w) evs else Inr 0) = Inr (risks ! i)"
    by auto
  have fr: "h' ! provs = (h ! provinces w)\<lparr>risk := Some risks\<rparr>"
    by (simp add: h' pa)
  have dom: "dom (region_risk_map (h' ! provs)) = set (map region_name ?rs)"
    using len by (simp add: fr region_risk_map_def dom_map_of_zip)
  have each': "\<forall>i < length risks. \<exists>evs.
        fetch_events cat (Suc i) (start w) (stop w) (Some (region_bbox (?rs ! i))) = Inr evs
        \<and> (evs = [] \<longrightarrow> risks ! i = 0)
        \<and> (evs \<noteq> [] \<longrightarrow> predict_risk (model w) evs = Inr (risks ! i))"
  proof (intro allI impI)
    fix i assume "i < length risks"
    with len each obtain evs where
      f: "fetch_events cat (1 + i) (start w) (stop w) (Some (region_bbox (?rs ! i))) = Inr evs"
      and p: "(if evs \<noteq> [] then predict_risk (model w) evs else Inr 0) = Inr (risks ! i)"
      by auto
    from p have "(evs = [] \<longrightarrow> risks ! i = 0)
        \<and> (evs \<noteq> [] \<longrightarrow> predict_risk (model w) evs = Inr (risks ! i))"
      by (auto split: if_splits)
    with f show "\<exists>evs. fetch_events cat (Suc i) (start w) (stop w) (Some (region_bbox (?rs ! i))) = Inr evs
        \<and> (evs = [] \<longrightarrow> risks ! i = 0)
        \<and> (evs \<noteq> [] \<longrightarrow> predict_risk (model w) evs = Inr (risks ! i))"
      by auto
  qed
  from v pa h' fr dom len each' show ?thesis by simp
qed

theorem C5_result_keys_are_the_regions_witness:
  "rows (fst (run catalog_up sample_worker three_provinces) ! 1) = rows (three_provinces ! 0)
   \<and> dom (region_risk_map (fst (run catalog_up sample_worker three_provinces) ! 1))
       = {''Adana'', ''Bolu'', ''Van''}
   \<and> risk (fst (run catalog_up sample_worker three_provinces) ! 1) = Some [50, 50, 0]"
proof -
  have m: "SigResult 50 sample_events 1 \<in> set [SigResult 50 sample_events 1, SigFinished]"
    by simp
  from C5_result_keys_are_the_regions[OF run_catalog_up m]
  show ?thesis
    by (simp add: run_catalog_up) (simp add: sample_worker_def three_provinces_def)
qed

subsection \<open>C6: the feature vector is the vector of means\<close>

text \<open>
  C6: for every non-empty list of events (each with a number for each of the six
  features), the row handed to the classifier holds, in the order magnitude, depth,
  station count, gap, minimal distance, RMS, the arithmetic mean of that feature over
  the events; and a permutation of the list gives the same row.
\<close>

theorem C6_aggregate_is_mean:
  assumes "events \<noteq> []" and "list_all numeric_event events"
  shows "feature_values events =
           Inr [field_mean ''mag'' events, field_mean ''depth'' events, field_mean ''nst'' events,
                field_mean ''gap'' events, field_mean ''dmin'' events, field_mean ''rms'' events]
         \<and> (\<forall>events'. mset events' = mset events \<longrightarrow> feature_values events' = feature_values events)"
proof
  from feature_values_numeric[OF assms] show "feature_values events =
           Inr [field_mean ''mag'' events, field_mean ''depth'' events, field_mean ''nst'' events,
                field_mean ''gap'' events, field_mean ''dmin'' events, field_mean ''rms'' events]"
    by (simp add: training_features_def)
next
  show "\<forall>events'. mset events' = mset events \<longrightarrow> feature_values events' = feature_values events"
  proof (intro allI impI)
    fix events' assume eq: "mset events' = mset events"
    with assms(1) have ne: "events' \<noteq> []" by auto
    from eq have "set events' = set events" by (rule mset_eq_setD)
    with assms(2) have num: "list_all numeric_event events'" by (simp add: list_all_iff)
    show "feature_values events' = feature_values events"
      by (simp add: feature_values_numeric[OF ne num] feature_values_numeric[OF assms]
          field_mean_mset[OF eq])
  qed
qed

theorem C6_aggregate_is_mean_witness:
  "two_events \<noteq> [] \<and> list_all numeric_event two_events
   \<and> feature_values two_events = Inr [9 / 2, 17 / 2, 6, 60, 3 / 2, 1]
   \<and> feature_values (rev two_events) = feature_values two_events"
proof -
  have ne: "two_events \<noteq> []" by (simp add: two_events_def)
  have num: "list_all numeric_event two_events"
    by (simp add: two_events_def numeric_event_def numeric_field_def training_features_def as_number_def)
  have m: "field_mean ''mag'' two_events = 9 / 2" "field_mean ''depth'' two_events = 17 / 2"
    "field_mean ''nst'' two_events = 6" "field_mean ''gap'' two_events = 60"
    "field_mean ''dmin'' two_events = 3 / 2" "field_mean ''rms'' two_events = 1"
    by (simp_all add: field_mean_def field_val_def two_events_def as_number_def)
  from C6_aggregate_is_mean[OF ne num] have
    "feature_values two_events = Inr [9 / 2, 17 / 2, 6, 60, 3 / 2, 1]"
    and "feature_values (rev two_events) = feature_values two_events"
    by (simp_all add: m)
  with ne num show ?thesis by simp
qed

subsection \<open>C7: the score is the probability times 100\<close>

text \<open>
  C7: when the classifier's probabilities lie in [0, 1], \<open>predict_risk\<close> returns 100
  times the probability the classifier gives for the row of means; every value it
  returns, the 0 of the empty list included, lies in [0, 100], and so does every risk
  that the loop over the provinces computes.
\<close>

theorem C7_score_is_scaled_probability:
  assumes "\<forall>row p. clf row = Inr p \<longrightarrow> 0 \<le> p \<and> p \<le> 1"
  shows "(events \<noteq> [] \<and> feature_values events = Inr row \<and> clf row = Inr p
            \<longrightarrow> predict_risk clf events = Inr (100 * p))
         \<and> (predict_risk clf events = Inr r \<longrightarrow> 0 \<le> r \<and> r \<le> 100)
         \<and> (sweep cat clf st en k regions [] = Inr risks \<longrightarrow> (\<forall>x \<in> set risks. 0 \<le> x \<and> x \<le> 100))"
proof (intro conjI impI)
  assume "events \<noteq> [] \<and> feature_values events = Inr row \<and> clf row = Inr p"
  then show "predict_risk clf events = Inr (100 * p)"
    by (simp add: predict_risk_scaled)
next
  have range: "\<And>evs x. predict_risk clf evs = Inr x \<Longrightarrow> 0 \<le> x \<and> x \<le> 100"
  proof -
    fix evs x assume "predict_risk clf evs = Inr x"
    from predict_risk_Inr[OF this] assms show "0 \<le> x \<and> x \<le> 100"
      by fastforce
  qed
  {
    assume "predict_risk clf events = Inr r"
    from range[OF this] show "0 \<le> r" and "r \<le> 100" by simp_all
  }
  assume "sweep cat clf st en k regions [] = Inr risks"
  from sweep_Inr[OF this] obtain new where new: "risks = [] @ new"
    and len': "length new = length regions"
    and each': "\<forall>i < length regions. \<exists>evs.
        fetch_events cat (k + i) st en (Some (region_bbox (regions ! i))) = Inr evs \<and>
        (if evs \<noteq> [] then predict_risk clf evs else Inr 0) = Inr (new ! i)"
    by blast
  from new len' have len: "length risks = length regions" by simp
  from new each' have each: "\<forall>i < length regions. \<exists>evs.
        (if evs \<noteq> [] then predict_risk clf evs else Inr 0) = Inr (risks ! i)"
    by (metis append_Nil)
  show "\<forall>x \<in> set risks. 0 \<le> x \<and> x \<le> 100"
  proof
    fix x assume "x \<in> set risks"
    then obtain i where i: "i < length risks" and x: "x = risks ! i"
      by (auto simp: in_set_conv_nth)
    from each i len have "\<exists>evs. (if evs \<noteq> [] then predict_risk clf evs else Inr 0) = Inr x"
      unfolding x by simp
    then obtain evs where
      "(if evs \<noteq> [] then predict_risk clf evs else Inr 0) = Inr x" ..
    then show "0 \<le> x \<and> x \<le> 100"
      using range[of evs x] by (auto split: if_splits)
  qed
qed


theorem C7_score_is_scaled_probability_witness:
  "predict_risk half_classifier sample_events = Inr (100 * (1 / 2))
   \<and> sweep catalog_up half_classifier 0 1 1 (rows (three_provinces ! 0)) [] = Inr [50, 50, 0]
   \<and> list_all (\<lambda>x. 0 \<le> x \<and> x \<le> 100) [50, 50, 0 :: real]"
proof -
  have h: "\<forall>row p. half_classifier row = Inr p \<longrightarrow> 0 \<le> p \<and> p \<le> 1"
    by (simp add: half_classifier_def)
  have sw: "sweep catalog_up half_classifier 0 1 1 (rows (three_provinces ! 0)) [] = Inr [50, 50, 0]"
    using sample_events_nonempty
    by (simp add: three_provinces_def fetch_events_def catalog_up_def parse_sample_response
        parse_empty_response predict_risk_sample)
  from C7_score_is_scaled_probability[OF h, of sample_events "[4, 10, 12, 90, 1, 1]" "1 / 2" 50
      catalog_up 0 1 1 "rows (three_provinces ! 0)" "[50, 50, 0]"]
    sample_events_nonempty feature_values_sample predict_risk_sample sw
  show ?thesis by (simp add: half_classifier_def)
qed

subsection \<open>C8: one outcome per run\<close>

text \<open>
  C8: every run emits exactly one outcome signal, an \<open>error\<close> or a \<open>result\<close>, never
  both and never two of a kind, whatever the catalog answers and the classifier does.
\<close>

theorem C8_exactly_one_outcome:
  "length (filter is_outcome (snd (run cat w h))) = 1"
proof -
  obtain h' sigs where r: "run cat w h = (h', sigs)"
    by (cases "run cat w h") auto
  from run_result[OF r] have "length (filter is_outcome sigs) = 1"
    by (elim disjE exE conjE) simp_all
  with r show ?thesis by simp
qed

subsection \<open>C9: records that the parser does not skip\<close>

text \<open>
  C9: a record yields an event if and only if it has a magnitude and three coordinates,
  and a malformed record is skipped without error. The guard of the parser covers a
  missing \<open>properties\<close>, \<open>geometry\<close>, \<open>coordinates\<close> or \<open>mag\<close> key, but a record that
  passes it without a \<open>time\<close> raises \<^verbatim>\<open>KeyError\<close>, and a record whose geometry is null
  raises \<^verbatim>\<open>AttributeError\<close>; either way the events of the well-formed records of the
  same response are lost with it.
\<close>

theorem C9_malformed_record_raises:
  "parse_earthquake_data sample_response = Inr sample_events
   \<and> parse_earthquake_data response_null_geometry = Inl AttributeError
   \<and> parse_earthquake_data response_without_time = Inl KeyError"
proof (intro conjI)
  show "parse_earthquake_data sample_response = Inr sample_events"
    by (rule parse_sample_response)
  show "parse_earthquake_data response_null_geometry = Inl AttributeError"
    by (simp add: response_null_geometry_def sample_feature_def parse_defs)
  show "parse_earthquake_data response_without_time = Inl KeyError"
    by (simp add: response_without_time_def sample_feature_def parse_defs)
qed

subsection \<open>C10: a record without an ancillary field\<close>

text \<open>
  C10: a record with a magnitude and three coordinates that lacks one of \<open>nst\<close>,
  \<open>gap\<close>, \<open>dmin\<close>, \<open>rms\<close> gives an event with 0 for that feature, and the 0 enters
  the mean, with no error. \<^verbatim>\<open>props.get('nst', 0)\<close> does so when the key is absent
  (the last conjunct). When the key is there with the value null, as the catalog
  writes a field it has no value for, \<open>get\<close> returns \<^verbatim>\<open>None\<close>: the event holds
  \<^verbatim>\<open>None\<close>, \<^verbatim>\<open>statistics.mean\<close> raises \<^verbatim>\<open>TypeError\<close> in \<open>predict_risk\<close>, and the
  run ends with the error signal.
\<close>

theorem C10_null_field_is_not_defaulted:
  "parse_earthquake_data response_null_nst = Inr events_null_nst
   \<and> map_of (hd events_null_nst) ''nst'' = Some PNone
   \<and> predict_risk half_classifier events_null_nst = Inl TypeError
   \<and> run catalog_null_nst sample_worker three_provinces
       = (three_provinces, [SigError (CalcError TypeError), SigFinished])
   \<and> parse_feature (PDict feature_without_nst)
       = Inr (Some [(''time'', PDatetime 5000000), (''mag'', PNum 3), (''depth'', PNum 8),
                    (''nst'', PNum 0), (''gap'', PNum 40), (''dmin'', PNum 2), (''rms'', PNum 1)])"
proof (intro conjI)
  show p: "parse_earthquake_data response_null_nst = Inr events_null_nst"
    by (simp add: response_null_nst_def events_null_nst_def parse_defs)
  show "map_of (hd events_null_nst) ''nst'' = Some PNone"
    by (simp add: events_null_nst_def)
  have ne: "events_null_nst \<noteq> []"
    by (simp add: events_null_nst_def)
  have "feature_values events_null_nst = Inl TypeError"
    by (simp add: feature_values_def training_features_def events_null_nst_def mean_py_def
        getitem_def as_number_def)
  with ne show r: "predict_risk half_classifier events_null_nst = Inl TypeError"
    by (simp add: predict_risk_def)
  from ne p r show "run catalog_null_nst sample_worker three_provinces
       = (three_provinces, [SigError (CalcError TypeError), SigFinished])"
    by (simp add: run_def run_try_def fetch_events_def catalog_null_nst_def sample_worker_def)
  show "parse_feature (PDict feature_without_nst)
       = Inr (Some [(''time'', PDatetime 5000000), (''mag'', PNum 3), (''depth'', PNum 8),
                    (''nst'', PNum 0), (''gap'', PNum 40), (''dmin'', PNum 2), (''rms'', PNum 1)])"
    by (simp add: feature_without_nst_def parse_defs)
qed

end
